theory Spec2Isabelle
  imports Complex_Main
begin

section \<open>Values, faults and the numeric conventions of the model\<close>

text \<open>
  The program computes with numpy \<^verbatim>\<open>float64\<close> arrays. The model of the two
  calculators and of the post-hoc procedures idealises a finite float as a
  \<^typ>\<open>real\<close>: rounding, overflow and the special values are not part of it. What
  rounding does to the sums of squares and to the residuals is the subject of the last
  section of the model, which reads those lines of the source again with every
  arithmetic operation rounded to \<^verbatim>\<open>float64\<close>. Two places where the program
  leaves the real numbers are made explicit:
  \<^item> the F statistic, which the source sets to \<^verbatim>\<open>float("inf")\<close> by hand, has the
    type \<open>fstat\<close> with a constructor for \<open>+\<infinity>\<close>;
  \<^item> a division by zero. Python raises \<^verbatim>\<open>ZeroDivisionError\<close> when both operands
    are Python numbers (\<open>py_div\<close>); numpy does not raise, it warns and yields
    \<^verbatim>\<open>inf\<close> or \<^verbatim>\<open>nan\<close> (\<open>np_div\<close>), a value with no real counterpart. The
    model reports both as a fault, so a result \<open>Inr r\<close> says that every division the
    computation made had a non-zero divisor. The fault \<open>NonFinite\<close> is therefore not
    an exception of the program: it marks the point where the program's value stops
    being a real number, and the model does not follow the computation beyond it.

  The external routines of scipy (the F distribution's upper tail, the two-sample
  t-test, Tukey's studentized range) are parameters of the model.

  Every \<^verbatim>\<open>raise\<close> of the source is a constructor of \<open>fault\<close>, with the values its
  message is formatted from.
\<close>

datatype fault =
    UnsupportedFormat
  | GroupNamesLength nat nat
  | TooFewGroups
  | EmptyGroup nat
  | FactorALevels
  | FactorBLevels
  | TooFewReplicates
  | RowColumns nat nat nat
  | CellReplicates nat nat nat nat
  | IndexError
  | ZeroDivisionError
  | NonFinite
  | ProviderError

datatype fstat = Fin real | PInf

text \<open>
  A float that an external routine returns and the program only passes on, compares or
  scales (a p-value, a t statistic) keeps its special values: \<^verbatim>\<open>nan\<close> and the two
  infinities. \<open>fl_less\<close> and \<open>fl_le\<close> are Python's \<^verbatim>\<open><\<close> and \<^verbatim>\<open><=\<close>, false
  whenever an operand is \<^verbatim>\<open>nan\<close>; \<open>fl_times\<close> is the product with a finite number;
  \<open>py_min\<close> is the builtin \<^verbatim>\<open>min(a, b)\<close>, which returns \<open>a\<close> unless \<open>b < a\<close>.
\<close>

datatype pyfloat = Num real | PosInf | NegInf | NaN

fun fl_less :: "pyfloat \<Rightarrow> pyfloat \<Rightarrow> bool" where
  "fl_less NaN _ = False"
| "fl_less _ NaN = False"
| "fl_less (Num x) (Num y) = (x < y)"
| "fl_less NegInf NegInf = False"
| "fl_less NegInf _ = True"
| "fl_less _ NegInf = False"
| "fl_less PosInf _ = False"
| "fl_less _ PosInf = True"

fun fl_le :: "pyfloat \<Rightarrow> pyfloat \<Rightarrow> bool" where
  "fl_le NaN _ = False"
| "fl_le _ NaN = False"
| "fl_le (Num x) (Num y) = (x \<le> y)"
| "fl_le NegInf _ = True"
| "fl_le _ PosInf = True"
| "fl_le _ NegInf = False"
| "fl_le PosInf _ = False"

fun fl_times :: "pyfloat \<Rightarrow> real \<Rightarrow> pyfloat" where
  "fl_times (Num x) m = Num (x * m)"
| "fl_times NaN m = NaN"
| "fl_times PosInf m = (if 0 < m then PosInf else if m < 0 then NegInf else NaN)"
| "fl_times NegInf m = (if 0 < m then NegInf else if m < 0 then PosInf else NaN)"

definition py_min :: "pyfloat \<Rightarrow> pyfloat \<Rightarrow> pyfloat" where
  "py_min a b = (if fl_less b a then b else a)"

definition bind_res :: "fault + 'a \<Rightarrow> ('a \<Rightarrow> fault + 'b) \<Rightarrow> fault + 'b" where
  "bind_res m f = (case m of Inl e \<Rightarrow> Inl e | Inr v \<Rightarrow> f v)"

fun map_res :: "('a \<Rightarrow> fault + 'b) \<Rightarrow> 'a list \<Rightarrow> fault + 'b list" where
  "map_res f [] = Inr []"
| "map_res f (x # xs) =
     bind_res (f x) (\<lambda>y. bind_res (map_res f xs) (\<lambda>ys. Inr (y # ys)))"

definition py_div :: "real \<Rightarrow> real \<Rightarrow> fault + real" where
  "py_div x y = (if y = 0 then Inl ZeroDivisionError else Inr (x / y))"

definition np_div :: "real \<Rightarrow> real \<Rightarrow> fault + real" where
  "np_div x y = (if y = 0 then Inl NonFinite else Inr (x / y))"

text \<open>\<^verbatim>\<open>np.mean(g)\<close>: the sum of the array over its length.\<close>

definition np_mean :: "real list \<Rightarrow> fault + real" where
  "np_mean g = np_div (sum_list g) (real (length g))"

text \<open>\<^verbatim>\<open>np.sum((g - c) ** 2)\<close>, with the scalar \<open>c\<close> broadcast over the array.\<close>

definition sq_dev :: "real list \<Rightarrow> real \<Rightarrow> real" where
  "sq_dev g c = sum_list (map (\<lambda>x. (x - c)\<^sup>2) g)"

text \<open>\<^verbatim>\<open>np.std(g, ddof=1) / np.sqrt(len(g))\<close>.\<close>

definition std_err :: "real list \<Rightarrow> fault + real" where
  "std_err g =
     bind_res (np_mean g) (\<lambda>m.
     bind_res (np_div (sq_dev g m) (real (length g) - 1)) (\<lambda>v.
     np_div (sqrt v) (sqrt (real (length g)))))"

text \<open>The standard error of one group: \<^verbatim>\<open>... if len(g) > 1 else 0.0\<close>.\<close>

definition group_std_err :: "real list \<Rightarrow> fault + real" where
  "group_std_err g = (if length g > 1 then std_err g else Inr 0)"

text \<open>Python's \<^verbatim>\<open>str\<close> of a non-negative integer, for the generated names and messages.\<close>

fun str_nat :: "nat \<Rightarrow> string" where
  "str_nat n =
     (if n < 10 then [char_of (48 + n)]
      else str_nat (n div 10) @ [char_of (48 + n mod 10)])"

declare str_nat.simps [simp del]

section \<open>One-way ANOVA (one_way_logic.py)\<close>

text \<open>
  The constructor accepts a dictionary (an ordered list of key and group), a sequence of
  groups, or anything else, which it rejects. A group is a sequence of numbers:
  conversion of non-numeric values is outside the model.
\<close>

datatype raw_data =
    DictData "(string \<times> real list) list"
  | SeqData "real list list"
  | OtherData

record one_way =
  ow_groups :: "real list list"
  ow_group_names :: "string list"
  ow_k :: int
  ow_n_total :: int

text \<open>The first branch of \<^verbatim>\<open>__init__\<close>: groups and their automatic names.\<close>

fun standardize :: "raw_data \<Rightarrow> fault + (real list list \<times> string list)" where
  "standardize (DictData kvs) = Inr (map snd kvs, map fst kvs)"
| "standardize (SeqData gs) =
     Inr (gs, map (\<lambda>i. ''Group '' @ str_nat (i + 1)) [0..<length gs])"
| "standardize OtherData = Inl UnsupportedFormat"

text \<open>The loop \<^verbatim>\<open>for i, g in enumerate(self.groups)\<close> that rejects an empty group.\<close>

fun check_groups :: "nat \<Rightarrow> real list list \<Rightarrow> fault + unit" where
  "check_groups i [] = Inr ()"
| "check_groups i (g # gs) =
     (if length g < 1 then Inl (EmptyGroup (i + 1)) else check_groups (i + 1) gs)"

definition OneWayANOVA_init :: "raw_data \<Rightarrow> string list option \<Rightarrow> fault + one_way" where
  "OneWayANOVA_init data group_names =
     bind_res (standardize data) (\<lambda>(gs, auto_names).
     bind_res
       (case group_names of
          None \<Rightarrow> Inr auto_names
        | Some ns \<Rightarrow>
            if length ns \<noteq> length gs then Inl (GroupNamesLength (length ns) (length gs))
            else Inr ns) (\<lambda>names.
     if length gs < 2 then Inl TooFewGroups
     else bind_res (check_groups 0 gs) (\<lambda>_.
       Inr \<lparr> ow_groups = gs, ow_group_names = names,
             ow_k = int (length gs),
             ow_n_total = sum_list (map (\<lambda>g. int (length g)) gs) \<rparr>)))"

record one_way_result =
  ss_between :: real
  ss_within :: real
  ss_total :: real
  df_between :: int
  df_within :: int
  df_total :: int
  ms_between :: real
  ms_within :: real
  f_stat :: fstat
  p_value :: real
  group_means :: "real list"
  group_se :: "real list"
  res_group_names :: "string list"
  grand_mean :: real
  residuals :: "real list"

text \<open>
  \<^verbatim>\<open>calculate\<close>. The parameter \<open>f_sf\<close> is \<^verbatim>\<open>scipy.stats.f.sf\<close>, the upper tail of
  the F distribution, which is not part of the repository. The formatted summary is a
  rendering of the other fields and is left out of the record.
\<close>

definition calculate ::
  "(fstat \<Rightarrow> int \<Rightarrow> int \<Rightarrow> real) \<Rightarrow> one_way \<Rightarrow> fault + one_way_result" where
  "calculate f_sf s =
     bind_res (map_res np_mean (ow_groups s)) (\<lambda>means.
     bind_res (np_div (sum_list (map sum_list (ow_groups s))) (real_of_int (ow_n_total s)))
       (\<lambda>grand.
     let ssb = sum_list (map (\<lambda>(g, m). real (length g) * (m - grand)\<^sup>2)
                 (zip (ow_groups s) means));
         ssw = sum_list (map (\<lambda>(g, m). sq_dev g m) (zip (ow_groups s) means));
         sst = sum_list (map (\<lambda>g. sq_dev g grand) (ow_groups s));
         dfb = ow_k s - 1;
         dfw = ow_n_total s - ow_k s;
         dft = ow_n_total s - 1
     in
     bind_res (np_div ssb (real_of_int dfb)) (\<lambda>msb.
     bind_res (if dfw > 0 then np_div ssw (real_of_int dfw) else Inr 0) (\<lambda>msw.
     bind_res (if msw > 0 then map_sum id Fin (np_div msb msw) else Inr PInf) (\<lambda>f.
     bind_res (map_res group_std_err (ow_groups s))
       (\<lambda>se.
     Inr \<lparr> ss_between = ssb, ss_within = ssw, ss_total = sst,
           df_between = dfb, df_within = dfw, df_total = dft,
           ms_between = msb, ms_within = msw,
           f_stat = f, p_value = f_sf f dfb dfw,
           group_means = means, group_se = se,
           res_group_names = ow_group_names s,
           grand_mean = grand,
           residuals = concat (map (\<lambda>(g, m). map (\<lambda>x. x - m) g)
                         (zip (ow_groups s) means)) \<rparr>))))))"

section \<open>Two-way ANOVA with replication (two_way_logic.py)\<close>

record two_way =
  tw_data :: "real list list list"
  tw_factor_a_name :: string
  tw_factor_b_name :: string
  tw_a :: int
  tw_b :: int
  tw_r :: int
  tw_N :: int

text \<open>The inner loop of \<^verbatim>\<open>_validate\<close>, over the cells of row \<open>i\<close> from column \<open>j\<close> on.\<close>

fun check_cells :: "nat \<Rightarrow> nat \<Rightarrow> real list list \<Rightarrow> nat \<Rightarrow> fault + unit" where
  "check_cells i j [] r = Inr ()"
| "check_cells i j (c # cs) r =
     (if length c \<noteq> r then Inl (CellReplicates i j (length c) r)
      else check_cells i (j + 1) cs r)"

text \<open>
  The outer loop, over the rows from row \<open>i\<close> on. A row that passes the length test has
  exactly \<open>b\<close> cells, so \<^verbatim>\<open>for j in range(self.b)\<close> visits each of its cells.
\<close>

fun check_rows :: "nat \<Rightarrow> real list list list \<Rightarrow> nat \<Rightarrow> nat \<Rightarrow> fault + unit" where
  "check_rows i [] b r = Inr ()"
| "check_rows i (row # rows) b r =
     (if length row \<noteq> b then Inl (RowColumns i (length row) b)
      else bind_res (check_cells i 0 row r) (\<lambda>_. check_rows (i + 1) rows b r))"

definition validate :: "real list list list \<Rightarrow> nat \<Rightarrow> nat \<Rightarrow> nat \<Rightarrow> fault + unit" where
  "validate data a b r =
     (if a < 2 then Inl FactorALevels
      else if b < 2 then Inl FactorBLevels
      else if r < 2 then Inl TooFewReplicates
      else check_rows 0 data b r)"

text \<open>
  \<^verbatim>\<open>__init__\<close> reads \<^verbatim>\<open>len(data[0])\<close> and \<^verbatim>\<open>len(data[0][0])\<close> before it validates:
  on an empty grid or an empty first row the index raises \<^verbatim>\<open>IndexError\<close>.
\<close>

definition TwoWayANOVA_init ::
  "real list list list \<Rightarrow> string \<Rightarrow> string \<Rightarrow> fault + two_way" where
  "TwoWayANOVA_init data factor_a_name factor_b_name =
     (case data of
        [] \<Rightarrow> Inl IndexError
      | row0 # _ \<Rightarrow>
          (case row0 of
             [] \<Rightarrow> Inl IndexError
           | cell0 # _ \<Rightarrow>
               bind_res (validate data (length data) (length row0) (length cell0)) (\<lambda>_.
               Inr \<lparr> tw_data = data,
                     tw_factor_a_name = factor_a_name,
                     tw_factor_b_name = factor_b_name,
                     tw_a = int (length data),
                     tw_b = int (length row0),
                     tw_r = int (length cell0),
                     tw_N = int (length data) * int (length row0) * int (length cell0) \<rparr>)))"

text \<open>The message of each \<^verbatim>\<open>ValueError\<close>, as the source formats it.\<close>

fun message :: "fault \<Rightarrow> string" where
  "message UnsupportedFormat =
     ''Unsupported data format. Provide a list of lists, numpy array, or dictionary.''"
| "message (GroupNamesLength n g) =
     ''group_names length ('' @ str_nat n @ '') must match number of groups (''
       @ str_nat g @ '').''"
| "message TooFewGroups = ''ANOVA requires at least 2 groups.''"
| "message (EmptyGroup i) = ''Group '' @ str_nat i @ '' is empty.''"
| "message FactorALevels = ''Factor A must have at least 2 levels.''"
| "message FactorBLevels = ''Factor B must have at least 2 levels.''"
| "message TooFewReplicates =
     ''Two-way ANOVA with replication requires at least 2 replicates per cell.''"
| "message (RowColumns i n b) =
     ''Row '' @ str_nat i @ '' has '' @ str_nat n @ '' columns, expected '' @ str_nat b
       @ ''. Design must be balanced.''"
| "message (CellReplicates i j n r) =
     ''Cell ('' @ str_nat i @ '','' @ str_nat j @ '') has '' @ str_nat n
       @ '' replicates, expected '' @ str_nat r
       @ ''. All cells must have equal replicates.''"
| "message _ = []"

text \<open>The faults that are a \<^verbatim>\<open>ValueError\<close> raised by the repository's own validation.\<close>

fun is_validation_error :: "fault \<Rightarrow> bool" where
  "is_validation_error UnsupportedFormat = True"
| "is_validation_error (GroupNamesLength _ _) = True"
| "is_validation_error TooFewGroups = True"
| "is_validation_error (EmptyGroup _) = True"
| "is_validation_error FactorALevels = True"
| "is_validation_error FactorBLevels = True"
| "is_validation_error TooFewReplicates = True"
| "is_validation_error (RowColumns _ _ _) = True"
| "is_validation_error (CellReplicates _ _ _ _) = True"
| "is_validation_error _ = False"

record two_way_result =
  ss_a :: real
  ss_b :: real
  ss_ab :: real
  ss_e :: real
  ss_t :: real
  df_a :: int
  df_b :: int
  df_ab :: int
  df_e :: int
  df_t :: int
  ms_a :: real
  ms_b :: real
  ms_ab :: real
  ms_e :: real
  f_a :: fstat
  f_b :: fstat
  f_ab :: fstat
  p_a :: real
  p_b :: real
  p_ab :: real
  cell_means :: "real list list"
  row_means :: "real list"
  col_means :: "real list"
  tw_grand_mean :: real
  tw_residuals :: "real list"
  groups_by_a :: "real list list"
  groups_by_b :: "real list list"
  a_names :: "string list"
  b_names :: "string list"
  se_a :: "real list"
  se_b :: "real list"

text \<open>\<^verbatim>\<open>arr[:, j, :].flatten()\<close>: the observations of column \<open>j\<close>, row by row.\<close>

definition column :: "real list list list \<Rightarrow> nat \<Rightarrow> real list" where
  "column data j = concat (map (\<lambda>row. row ! j) data)"

text \<open>\<^verbatim>\<open>ms / ms_e if ms_e > 0 else float("inf")\<close>.\<close>

definition f_ratio :: "real \<Rightarrow> real \<Rightarrow> fault + fstat" where
  "f_ratio ms mse = (if mse > 0 then map_sum id Fin (np_div ms mse) else Inr PInf)"

text \<open>
  \<^verbatim>\<open>calculate\<close>. The array \<^verbatim>\<open>arr\<close> has the shape \<open>(a, b, r)\<close> that validation
  established; means over an axis are means of the flattened slices.
\<close>

definition tw_calculate ::
  "(fstat \<Rightarrow> int \<Rightarrow> int \<Rightarrow> real) \<Rightarrow> two_way \<Rightarrow> fault + two_way_result" where
  "tw_calculate f_sf s =
     (let a = tw_a s; b = tw_b s; r = tw_r s; arr = tw_data s in
     bind_res (np_mean (concat (concat arr))) (\<lambda>grand.
     bind_res (map_res (\<lambda>row. np_mean (concat row)) arr) (\<lambda>rows.
     bind_res (map_res (\<lambda>j. np_mean (column arr j)) [0..<nat b]) (\<lambda>cols.
     bind_res (map_res (map_res np_mean) arr) (\<lambda>cells.
     let ssa = real_of_int b * real_of_int r * sq_dev rows grand;
         ssb = real_of_int a * real_of_int r * sq_dev cols grand;
         ssab = real_of_int r *
           sum_list (map (\<lambda>i. sum_list (map (\<lambda>j.
             (cells ! i ! j - rows ! i - cols ! j + grand)\<^sup>2) [0..<nat b])) [0..<nat a]);
         sse = sum_list (map (\<lambda>i. sum_list (map (\<lambda>j.
             sq_dev (arr ! i ! j) (cells ! i ! j)) [0..<nat b])) [0..<nat a]);
         sst = sq_dev (concat (concat arr)) grand;
         dfa = a - 1;
         dfb = b - 1;
         dfab = (a - 1) * (b - 1);
         dfe = a * b * (r - 1);
         dft = tw_N s - 1
     in
     bind_res (np_div ssa (real_of_int dfa)) (\<lambda>msa.
     bind_res (np_div ssb (real_of_int dfb)) (\<lambda>msb.
     bind_res (np_div ssab (real_of_int dfab)) (\<lambda>msab.
     bind_res (if dfe > 0 then np_div sse (real_of_int dfe) else Inr 0) (\<lambda>mse.
     bind_res (f_ratio msa mse) (\<lambda>fa.
     bind_res (f_ratio msb mse) (\<lambda>fb.
     bind_res (f_ratio msab mse) (\<lambda>fab.
     let by_a = map concat arr;
         by_b = map (column arr) [0..<nat b]
     in
     bind_res (map_res std_err by_a) (\<lambda>sea.
     bind_res (map_res std_err by_b) (\<lambda>seb.
     Inr \<lparr> ss_a = ssa, ss_b = ssb, ss_ab = ssab, ss_e = sse, ss_t = sst,
           df_a = dfa, df_b = dfb, df_ab = dfab, df_e = dfe, df_t = dft,
           ms_a = msa, ms_b = msb, ms_ab = msab, ms_e = mse,
           f_a = fa, f_b = fb, f_ab = fab,
           p_a = f_sf fa dfa dfe, p_b = f_sf fb dfb dfe, p_ab = f_sf fab dfab dfe,
           cell_means = cells, row_means = rows, col_means = cols,
           tw_grand_mean = grand,
           tw_residuals = concat (map (\<lambda>i. concat (map (\<lambda>j.
             map (\<lambda>x. x - cells ! i ! j) (arr ! i ! j)) [0..<nat b])) [0..<nat a]),
           groups_by_a = by_a, groups_by_b = by_b,
           a_names = map (\<lambda>i. tw_factor_a_name s @ '' '' @ str_nat (i + 1)) [0..<nat a],
           b_names = map (\<lambda>j. tw_factor_b_name s @ '' '' @ str_nat (j + 1)) [0..<nat b],
           se_a = sea, se_b = seb \<rparr>))))))))))))))"

section \<open>Post-hoc comparisons (post_hoc.py)\<close>

text \<open>
  \<^verbatim>\<open>itertools.combinations(range(k), 2)\<close>, which is also the order of the nested loops
  \<^verbatim>\<open>for i in range(k): for j in range(i + 1, k)\<close> of \<^verbatim>\<open>tukey_hsd\<close>.
\<close>

definition pairs :: "nat \<Rightarrow> (nat \<times> nat) list" where
  "pairs k = concat (map (\<lambda>i. map (\<lambda>j. (i, j)) [i + 1..<k]) [0..<k])"

text \<open>\<^verbatim>\<open>group_names[i]\<close> for an index that is never negative.\<close>

definition name_at :: "string list \<Rightarrow> nat \<Rightarrow> fault + string" where
  "name_at names i = (if i < length names then Inr (names ! i) else Inl IndexError)"





record bonferroni_row =
  bf_group1 :: string
  bf_group2 :: string
  bf_mean_diff :: real
  bf_t_stat :: pyfloat
  bf_p_raw :: pyfloat
  bf_p_adjusted :: pyfloat
  bf_significant :: bool

record bonferroni_result =
  bf_table :: "bonferroni_row list"
  bf_corrected_alpha :: real

text \<open>The default of the parameter \<^verbatim>\<open>alpha\<close>.\<close>

definition default_alpha :: real where
  "default_alpha = 5 / 100"

text \<open>
  \<^verbatim>\<open>bonferroni\<close>. The parameter \<open>ttest_ind\<close> is \<^verbatim>\<open>scipy.stats.ttest_ind\<close>, which
  returns the statistic and the raw p-value, either of which may be \<^verbatim>\<open>nan\<close>. The
  number of comparisons is a Python integer, and \<^verbatim>\<open>alpha / m\<close> raises when it is
  zero.
\<close>

definition bonferroni ::
  "(real list \<Rightarrow> real list \<Rightarrow> pyfloat \<times> pyfloat) \<Rightarrow> real list list \<Rightarrow> string list
     \<Rightarrow> real \<Rightarrow> fault + bonferroni_result" where
  "bonferroni ttest_ind groups names alpha =
     (let k = int (length groups);
          m = k * (k - 1) div 2
      in
      bind_res (py_div alpha (real_of_int m)) (\<lambda>corrected_alpha.
      bind_res (map_res (\<lambda>(i, j).
        let (t_stat, p_raw) = ttest_ind (groups ! i) (groups ! j);
            p_adj = py_min (fl_times p_raw (real_of_int m)) (Num 1)
        in
        bind_res (np_mean (groups ! i)) (\<lambda>mi.
        bind_res (np_mean (groups ! j)) (\<lambda>mj.
        bind_res (name_at names i) (\<lambda>n1.
        bind_res (name_at names j) (\<lambda>n2.
        Inr \<lparr> bf_group1 = n1, bf_group2 = n2, bf_mean_diff = mi - mj,
              bf_t_stat = t_stat, bf_p_raw = p_raw, bf_p_adjusted = p_adj,
              bf_significant = fl_less p_adj (Num alpha) \<rparr>)))))
        (pairs (length groups))) (\<lambda>table.
      Inr \<lparr> bf_table = table, bf_corrected_alpha = corrected_alpha \<rparr>)))"

text \<open>
  What the t-test of scipy returns where it has no degree of freedom: with
  \<open>n1 + n2 - 2 \<le> 0\<close> (two singleton samples, or an empty one) the pooled variance
  is \<open>0 / 0\<close> and both the statistic and the p-value are \<^verbatim>\<open>nan\<close>. Elsewhere the
  values stay a parameter, \<open>core\<close>.
\<close>

definition scipy_ttest_ind ::
  "(real list \<Rightarrow> real list \<Rightarrow> pyfloat \<times> pyfloat) \<Rightarrow> real list \<Rightarrow> real list
     \<Rightarrow> pyfloat \<times> pyfloat" where
  "scipy_ttest_ind core x y = (if length x + length y \<le> 2 then (NaN, NaN) else core x y)"






section \<open>The sums of squares and the residuals in float64 arithmetic\<close>

text \<open>
  A \<^verbatim>\<open>float64\<close> operation returns the exact result of the operation, rounded to
  the nearest \<^verbatim>\<open>float64\<close> number, a tie going to the number whose significand is
  even. \<open>rhe\<close> rounds a real number to the nearest integer in that way, and \<open>f64\<close>
  rounds it to 53 significant bits. The range of the exponent is not bounded here:
  overflow and the subnormal numbers are left out.
\<close>

definition rhe :: "real \<Rightarrow> int" where
  "rhe x =
     (let f = \<lfloor>x\<rfloor>; d = x - of_int f in
      if d < 1 / 2 then f
      else if 1 / 2 < d then f + 1
      else if even f then f else f + 1)"

definition f64 :: "real \<Rightarrow> real" where
  "f64 x =
     (if x = 0 then 0
      else let e = \<lfloor>log 2 \<bar>x\<bar>\<rfloor> - 52 in
        of_int (rhe (x / 2 powr of_int e)) * 2 powr of_int e)"













section \<open>Notions of the statements\<close>

text \<open>
  Mathematical counterparts of what the program computes, the invariants its
  constructors establish, and the shapes of input the statements speak about. None of
  them is part of the program; the theorems relate the program's results to them.
\<close>

text \<open>The mean of a non-empty array, as a real number.\<close>

definition avg :: "real list \<Rightarrow> real" where
  "avg g = sum_list g / real (length g)"

text \<open>What the constructor establishes: the invariant of a constructed object.\<close>

definition ow_inv :: "one_way \<Rightarrow> bool" where
  "ow_inv s = (2 \<le> length (ow_groups s) \<and> [] \<notin> set (ow_groups s)
     \<and> ow_k s = int (length (ow_groups s))
     \<and> ow_n_total s = sum_list (map (\<lambda>g. int (length g)) (ow_groups s)))"

text \<open>The three sums of squares about a centre \<open>c\<close>, over the group means.\<close>

definition ow_ssb :: "real list list \<Rightarrow> real \<Rightarrow> real" where
  "ow_ssb gs c = sum_list (map (\<lambda>g. real (length g) * (avg g - c)\<^sup>2) gs)"

definition ow_ssw :: "real list list \<Rightarrow> real" where
  "ow_ssw gs = sum_list (map (\<lambda>g. sq_dev g (avg g)) gs)"

definition ow_sst :: "real list list \<Rightarrow> real \<Rightarrow> real" where
  "ow_sst gs c = sum_list (map (\<lambda>g. sq_dev g c) gs)"

text \<open>The groups of a supported input, in the order the input gives them.\<close>

fun groups_of :: "raw_data \<Rightarrow> real list list" where
  "groups_of (DictData kvs) = map snd kvs"
| "groups_of (SeqData gs) = gs"
| "groups_of OtherData = []"

text \<open>What the two-way constructor establishes.\<close>

definition tw_inv :: "two_way \<Rightarrow> bool" where
  "tw_inv s = (tw_a s = int (length (tw_data s)) \<and> 2 \<le> tw_a s \<and> 2 \<le> tw_b s \<and> 2 \<le> tw_r s
     \<and> (\<forall>row \<in> set (tw_data s). int (length row) = tw_b s
           \<and> (\<forall>c \<in> set row. int (length c) = tw_r s))
     \<and> tw_N s = tw_a s * tw_b s * tw_r s)"

text \<open>A grid whose rows all have \<open>b\<close> cells and whose cells all have \<open>r\<close> replicates.\<close>

definition rectangular :: "real list list list \<Rightarrow> nat \<Rightarrow> nat \<Rightarrow> bool" where
  "rectangular data b r =
     (\<forall>row \<in> set data. length row = b \<and> (\<forall>c \<in> set row. length c = r))"

text \<open>
  The grand mean, the row, column and cell means of a grid, and the interaction and
  error sums of squares written with them.
\<close>

definition tw_grand :: "real list list list \<Rightarrow> real" where
  "tw_grand data = avg (concat (concat data))"

definition tw_rows :: "real list list list \<Rightarrow> real list" where
  "tw_rows data = map (\<lambda>row. avg (concat row)) data"

definition tw_cols :: "real list list list \<Rightarrow> nat \<Rightarrow> real list" where
  "tw_cols data b = map (\<lambda>j. avg (column data j)) [0..<b]"

definition tw_cells :: "real list list list \<Rightarrow> real list list" where
  "tw_cells data = map (map avg) data"

definition tw_ssab :: "real list list list \<Rightarrow> nat \<Rightarrow> nat \<Rightarrow> real" where
  "tw_ssab data a b = sum_list (map (\<lambda>i. sum_list (map (\<lambda>j.
      (tw_cells data ! i ! j - tw_rows data ! i - tw_cols data b ! j + tw_grand data)\<^sup>2)
      [0..<b])) [0..<a])"

definition tw_sse :: "real list list list \<Rightarrow> nat \<Rightarrow> nat \<Rightarrow> real" where
  "tw_sse data a b = sum_list (map (\<lambda>i. sum_list (map (\<lambda>j.
      sq_dev (data ! i ! j) (tw_cells data ! i ! j)) [0..<b])) [0..<a])"




text \<open>The row that \<^verbatim>\<open>bonferroni\<close> builds for the pair \<open>(i, j)\<close>.\<close>

definition bonferroni_row_of ::
  "(real list \<Rightarrow> real list \<Rightarrow> pyfloat \<times> pyfloat) \<Rightarrow> real list list \<Rightarrow> string list
     \<Rightarrow> real \<Rightarrow> nat \<times> nat \<Rightarrow> bonferroni_row" where
  "bonferroni_row_of ttest_ind groups names alpha = (\<lambda>(i, j).
     \<lparr> bf_group1 = names ! i, bf_group2 = names ! j,
       bf_mean_diff = avg (groups ! i) - avg (groups ! j),
       bf_t_stat = fst (ttest_ind (groups ! i) (groups ! j)),
       bf_p_raw = snd (ttest_ind (groups ! i) (groups ! j)),
       bf_p_adjusted = py_min (fl_times (snd (ttest_ind (groups ! i) (groups ! j)))
                                (real (length groups choose 2))) (Num 1),
       bf_significant = fl_less
         (py_min (fl_times (snd (ttest_ind (groups ! i) (groups ! j)))
                   (real (length groups choose 2))) (Num 1)) (Num alpha) \<rparr>)"



section \<open>Verification\<close>

subsection \<open>Rounding to float64\<close>

lemma rhe_int [simp]: "rhe (of_int z) = z"
  by (simp add: rhe_def)


lemma f64_zero [simp]: "f64 0 = 0"
  by (simp add: f64_def)

lemma floor_log2_bounds:
  assumes "x \<noteq> 0"
  shows "2 powr of_int \<lfloor>log 2 \<bar>x\<bar>\<rfloor> \<le> \<bar>x\<bar>" "\<bar>x\<bar> < 2 powr (of_int \<lfloor>log 2 \<bar>x\<bar>\<rfloor> + 1)"
proof -
  have "0 < \<bar>x\<bar>" using assms by simp
  from floor_log_eq_powr_iff [OF this, of 2 "\<lfloor>log 2 \<bar>x\<bar>\<rfloor>"]
  show "2 powr of_int \<lfloor>log 2 \<bar>x\<bar>\<rfloor> \<le> \<bar>x\<bar>" "\<bar>x\<bar> < 2 powr (of_int \<lfloor>log 2 \<bar>x\<bar>\<rfloor> + 1)"
    by simp_all
qed


lemma f64_exact:
  assumes x: "x = of_int n * 2 ^ k" and n: "\<bar>n\<bar> < 2 ^ 53"
  shows "f64 x = x"
proof (cases "n = 0")
  case True
  then show ?thesis using x by simp
next
  case False
  then have x0: "x \<noteq> 0" using x by simp
  define L where "L = \<lfloor>log 2 \<bar>x\<bar>\<rfloor>"
  have lo: "2 powr of_int L \<le> \<bar>x\<bar>" unfolding L_def using x0 by (rule floor_log2_bounds)
  have "\<bar>x\<bar> = of_int \<bar>n\<bar> * 2 ^ k" using x by (simp add: abs_mult)
  also have "\<dots> < 2 ^ 53 * 2 ^ k"
  proof -
    have "(of_int \<bar>n\<bar> :: real) < of_int (2 ^ 53)" using n by (simp only: of_int_less_iff)
    then show ?thesis by simp
  qed
  also have "\<dots> = 2 powr of_int (53 + int k)"
    by (metis of_int_of_nat_eq of_nat_add of_nat_numeral powr_realpow zero_less_numeral power_add)
  finally have "\<bar>x\<bar> < (2::real) powr of_int (53 + int k)" .
  with lo have "2 powr of_int L < (2::real) powr of_int (53 + int k)" by (rule le_less_trans)
  then have "(of_int L :: real) < of_int (53 + int k)"
    by (simp only: powr_less_cancel_iff [of 2] one_less_numeral_iff semiring_norm)
  then have "L < 53 + int k" by (simp only: of_int_less_iff)
  then have d: "0 \<le> int k - (L - 52)" by simp
  define j where "j = nat (int k - (L - 52))"
  have kj: "int k = (L - 52) + int j" using d by (simp add: j_def)
  have "(2::real) ^ k = 2 powr of_int (int k)" by (simp add: powr_realpow)
  also have "\<dots> = 2 powr of_int (L - 52) * 2 powr of_int (int j)"
    by (simp only: kj of_int_add powr_add)
  also have "2 powr of_int (int j) = (2::real) ^ j" by (simp add: powr_realpow)
  finally have pk: "(2::real) ^ k = 2 powr of_int (L - 52) * 2 ^ j" .
  have "x / 2 powr of_int (L - 52) = of_int n * 2 ^ j"
    using x pk by simp
  also have "\<dots> = of_int (n * 2 ^ j)" by simp
  finally have q: "x / 2 powr of_int (L - 52) = of_int (n * 2 ^ j)" .
  have "f64 x = of_int (rhe (x / 2 powr of_int (L - 52))) * 2 powr of_int (L - 52)"
    using x0 by (simp add: f64_def L_def)
  also have "\<dots> = of_int (n * 2 ^ j) * 2 powr of_int (L - 52)"
    by (simp only: q rhe_int)
  also have "\<dots> = x" using x pk by simp
  finally show ?thesis .
qed

lemma f64_numeral [simp]:
  "numeral w < (2::int) ^ 53 \<Longrightarrow> f64 (numeral w) = numeral w"
  "numeral w < (2::int) ^ 53 \<Longrightarrow> f64 (- numeral w) = - numeral w"
  "f64 1 = 1" "f64 (- 1) = - 1"
  using f64_exact [of "numeral w" "numeral w" 0] f64_exact [of "- numeral w" "- numeral w" 0]
    f64_exact [of 1 1 0] f64_exact [of "- 1" "- 1" 0]
  by simp_all




subsection \<open>Without rounding, the float64 readings are the real-number model\<close>













subsection \<open>Float64 numbers and ties near \<^verbatim>\<open>1e16\<close>\<close>





















subsection \<open>Results, faults and means\<close>

lemma bind_res_Inr [simp]: "bind_res (Inr v) f = f v"
  by (simp add: bind_res_def)

lemma bind_res_Inl [simp]: "bind_res (Inl e) f = Inl e"
  by (simp add: bind_res_def)

lemma bind_res_eq_Inr:
  "bind_res m f = Inr r \<longleftrightarrow> (\<exists>v. m = Inr v \<and> f v = Inr r)"
  by (cases m) simp_all

lemma np_div_ok: "y \<noteq> 0 \<Longrightarrow> np_div x y = Inr (x / y)"
  by (simp add: np_div_def)

lemma py_div_ok: "y \<noteq> 0 \<Longrightarrow> py_div x y = Inr (x / y)"
  by (simp add: py_div_def)

lemma np_mean_ok: "g \<noteq> [] \<Longrightarrow> np_mean g = Inr (avg g)"
  by (simp add: np_mean_def avg_def np_div_ok)

lemma map_res_ok: "(\<And>x. x \<in> set xs \<Longrightarrow> f x = Inr (h x)) \<Longrightarrow> map_res f xs = Inr (map h xs)"
  by (induction xs) simp_all

lemma map_res_ex:
  "(\<And>x. x \<in> set xs \<Longrightarrow> \<exists>y. f x = Inr y) \<Longrightarrow> \<exists>ys. map_res f xs = Inr ys"
proof (induction xs)
  case Nil
  show ?case by simp
next
  case (Cons x xs)
  obtain y where "f x = Inr y" using Cons.prems by auto
  moreover obtain ys where "map_res f xs = Inr ys" using Cons by auto
  ultimately show ?case by simp
qed



subsection \<open>One-way analysis of variance\<close>

lemma check_groups_Inr: "check_groups i gs = Inr u \<longleftrightarrow> [] \<notin> set gs"
  by (induction gs arbitrary: i) auto

lemma check_groups_Inl:
  "(\<exists>e. check_groups i gs = Inl e) \<longleftrightarrow> [] \<in> set gs"
  by (induction gs arbitrary: i) auto

lemma init_inv:
  assumes "OneWayANOVA_init data names = Inr s"
  shows "ow_inv s"
  using assms
  by (cases data; cases names)
     (auto simp: OneWayANOVA_init_def ow_inv_def bind_res_eq_Inr check_groups_Inr
           split: if_splits)

lemma total_ge_groups:
  "[] \<notin> set gs \<Longrightarrow> int (length gs) \<le> sum_list (map (\<lambda>g. int (length g)) gs)"
proof (induction gs)
  case Nil
  show ?case by simp
next
  case (Cons g gs)
  then have "1 \<le> int (length g)" by (cases g) auto
  with Cons show ?case by auto
qed

lemma std_err_ex: "1 < length g \<Longrightarrow> \<exists>y. std_err g = Inr y"
  by (cases g) (auto simp: std_err_def np_mean_ok np_div_ok)

lemma zip_map_same: "zip xs (map f xs) = map (\<lambda>x. (x, f x)) xs"
  by (induction xs) simp_all


lemma calculate_ok:
  assumes "ow_inv s"
  shows "\<exists>r. calculate f_sf s = Inr r
    \<and> ss_between r = ow_ssb (ow_groups s)
         (sum_list (map sum_list (ow_groups s)) / real_of_int (ow_n_total s))
    \<and> ss_within r = ow_ssw (ow_groups s)
    \<and> ss_total r = ow_sst (ow_groups s)
         (sum_list (map sum_list (ow_groups s)) / real_of_int (ow_n_total s))
    \<and> df_between r = ow_k s - 1
    \<and> df_within r = ow_n_total s - ow_k s
    \<and> df_total r = ow_n_total s - 1
    \<and> ms_within r = (if ow_n_total s - ow_k s > 0
         then ow_ssw (ow_groups s) / real_of_int (ow_n_total s - ow_k s) else 0)
    \<and> f_stat r = (if ms_within r > 0 then Fin (ms_between r / ms_within r) else PInf)
    \<and> group_means r = map avg (ow_groups s)
    \<and> residuals r = concat (map (\<lambda>g. map (\<lambda>x. x - avg g) g) (ow_groups s))"
proof -
  let ?gs = "ow_groups s"
  have ne: "[] \<notin> set ?gs" and k: "ow_k s = int (length ?gs)" and two: "2 \<le> length ?gs"
    and n: "ow_n_total s = sum_list (map (\<lambda>g. int (length g)) ?gs)"
    using assms by (simp_all add: ow_inv_def)
  have means: "map_res np_mean ?gs = Inr (map avg ?gs)"
    using ne by (intro map_res_ok np_mean_ok) auto
  have "int (length ?gs) \<le> ow_n_total s"
    using total_ge_groups [OF ne] n by simp
  then have n0: "real_of_int (ow_n_total s) \<noteq> 0" using two by auto
  have k0: "real_of_int (ow_k s - 1) \<noteq> 0" using two k by auto
  have "\<exists>y. group_std_err g = Inr y" for g
    using std_err_ex [of g] by (auto simp: group_std_err_def)
  then obtain se where se: "map_res group_std_err ?gs = Inr se"
    using map_res_ex [of ?gs group_std_err] by blast
  let ?grand = "sum_list (map sum_list ?gs) / real_of_int (ow_n_total s)"
  let ?ssb = "ow_ssb ?gs ?grand"
  let ?ssw = "ow_ssw ?gs"
  let ?msb = "?ssb / real_of_int (ow_k s - 1)"
  let ?msw = "if ow_n_total s - ow_k s > 0
      then ?ssw / real_of_int (ow_n_total s - ow_k s) else 0"
  let ?f = "if ?msw > 0 then Fin (?msb / ?msw) else PInf"
  have "calculate f_sf s = Inr \<lparr> ss_between = ?ssb, ss_within = ?ssw,
      ss_total = ow_sst ?gs ?grand,
      df_between = ow_k s - 1, df_within = ow_n_total s - ow_k s,
      df_total = ow_n_total s - 1,
      ms_between = ?msb, ms_within = ?msw, f_stat = ?f,
      p_value = f_sf ?f (ow_k s - 1) (ow_n_total s - ow_k s),
      group_means = map avg ?gs, group_se = se,
      res_group_names = ow_group_names s, grand_mean = ?grand,
      residuals = concat (map (\<lambda>g. map (\<lambda>x. x - avg g) g) ?gs) \<rparr>"
    using n0 k0
    by (simp add: calculate_def means se Let_def np_div_def zip_map_same o_def
          ow_ssb_def ow_ssw_def ow_sst_def)
  then show ?thesis by simp
qed


lemma init_fails_iff:
  assumes "data \<noteq> OtherData"
  shows "(\<exists>e. OneWayANOVA_init data names = Inl e) \<longleftrightarrow>
     (length (groups_of data) < 2 \<or> [] \<in> set (groups_of data)
      \<or> (\<exists>ns. names = Some ns \<and> length ns \<noteq> length (groups_of data)))"
proof -
  have cg: "(\<exists>e. bind_res (check_groups 0 gs) f = Inl e) \<longleftrightarrow> [] \<in> set gs"
    if "\<And>u. \<exists>v. f u = Inr v" for gs and f :: "unit \<Rightarrow> fault + one_way"
  proof (cases "check_groups 0 gs")
    case (Inl e)
    then show ?thesis using check_groups_Inl [of 0 gs] by auto
  next
    case (Inr u)
    then show ?thesis using check_groups_Inr [of 0 gs u] that [of u] by auto
  qed
  show ?thesis
    using assms
    by (cases data; cases names) (simp_all add: OneWayANOVA_init_def cg)
qed

lemma init_error_kind:
  "OneWayANOVA_init data names = Inl e \<Longrightarrow> is_validation_error e"
proof -
  have cg: "check_groups i gs = Inl e \<Longrightarrow> is_validation_error e" for i gs
    by (induction gs arbitrary: i) (auto split: if_splits)
  assume "OneWayANOVA_init data names = Inl e"
  then show ?thesis
    by (cases data; cases names)
       (auto simp: OneWayANOVA_init_def bind_res_def dest: cg split: if_splits sum.splits)
qed














text \<open>
  Claim C4. For an input of a supported shape (a dictionary or a sequence of groups),
  the one-way constructor fails exactly when there are fewer than two groups, some group
  is empty, or a supplied list of names has another length than the number of groups;
  each failure is a validation error; and once construction has succeeded,
  \<^verbatim>\<open>calculate\<close> returns a result.
\<close>

theorem one_way_validation:
  assumes "data \<noteq> OtherData"
  shows "((\<exists>e. OneWayANOVA_init data names = Inl e) \<longleftrightarrow>
       (length (groups_of data) < 2 \<or> [] \<in> set (groups_of data)
        \<or> (\<exists>ns. names = Some ns \<and> length ns \<noteq> length (groups_of data))))
    \<and> (\<forall>e. OneWayANOVA_init data names = Inl e \<longrightarrow> is_validation_error e)
    \<and> (\<forall>s. OneWayANOVA_init data names = Inr s \<longrightarrow> (\<exists>r. calculate f_sf s = Inr r))"
proof (intro conjI allI impI)
  show "(\<exists>e. OneWayANOVA_init data names = Inl e) \<longleftrightarrow>
       (length (groups_of data) < 2 \<or> [] \<in> set (groups_of data)
        \<or> (\<exists>ns. names = Some ns \<and> length ns \<noteq> length (groups_of data)))"
    using assms by (rule init_fails_iff)
next
  fix e assume "OneWayANOVA_init data names = Inl e"
  then show "is_validation_error e" by (rule init_error_kind)
next
  fix s assume "OneWayANOVA_init data names = Inr s"
  then have "ow_inv s" by (rule init_inv)
  from calculate_ok [OF this, of f_sf] show "\<exists>r. calculate f_sf s = Inr r" by blast
qed

theorem one_way_validation_witness:
  "OneWayANOVA_init (SeqData [[1, 2], []]) None = Inl (EmptyGroup 2)
   \<and> is_validation_error (EmptyGroup 2)
   \<and> [] \<in> set (groups_of (SeqData [[1, 2], []]))
   \<and> OneWayANOVA_init (DictData [(''A'', [1, 2]), (''B'', [4])]) None
       = Inr \<lparr> ow_groups = [[1, 2], [4]], ow_group_names = [''A'', ''B''],
               ow_k = 2, ow_n_total = 3 \<rparr>
   \<and> (\<exists>r. calculate (\<lambda>f d1 d2. 0)
          \<lparr> ow_groups = [[1, 2], [4]], ow_group_names = [''A'', ''B''],
            ow_k = 2, ow_n_total = 3 \<rparr> = Inr r)"
proof -
  have bad: "OneWayANOVA_init (SeqData [[1, 2], []]) None = Inl (EmptyGroup 2)"
    by (simp add: OneWayANOVA_init_def)
  have good: "OneWayANOVA_init (DictData [(''A'', [1, 2]), (''B'', [4])]) None
       = Inr \<lparr> ow_groups = [[1, 2], [4]], ow_group_names = [''A'', ''B''],
               ow_k = 2, ow_n_total = 3 \<rparr>"
    by (simp add: OneWayANOVA_init_def)
  have a: "SeqData [[1, 2], []] \<noteq> OtherData"
    and b: "DictData [(''A'', [1, 2]), (''B'', [4])] \<noteq> OtherData" by simp_all
  from one_way_validation [OF a, of None] one_way_validation [OF b, of None "\<lambda>f d1 d2. 0"]
    bad good show ?thesis by auto
qed

subsection \<open>Two-way validation\<close>

lemma check_cells_Inr: "check_cells i j cs r = Inr u \<longleftrightarrow> (\<forall>c \<in> set cs. length c = r)"
  by (induction cs arbitrary: j) auto

lemma check_cells_Inl: "check_cells i j cs r = Inl e \<Longrightarrow> is_validation_error e"
  by (induction cs arbitrary: j) (auto split: if_splits)

lemma check_rows_Inr: "check_rows i rows b r = Inr u \<longleftrightarrow> rectangular rows b r"
  by (induction rows arbitrary: i)
     (auto simp: rectangular_def bind_res_eq_Inr check_cells_Inr)

lemma check_rows_Inl: "check_rows i rows b r = Inl e \<Longrightarrow> is_validation_error e"
proof (induction rows arbitrary: i)
  case Nil
  then show ?case by simp
next
  case (Cons row rows)
  then show ?case
    by (cases "check_cells i 0 row r") (auto split: if_splits dest: check_cells_Inl)
qed

lemma validate_Inl: "validate data a b r = Inl e \<Longrightarrow> is_validation_error e"
  by (auto simp: validate_def split: if_splits dest: check_rows_Inl)

lemma validate_Inr:
  "validate data a b r = Inr u \<longleftrightarrow> (2 \<le> a \<and> 2 \<le> b \<and> 2 \<le> r \<and> rectangular data b r)"
  by (auto simp: validate_def check_rows_Inr)

lemma tw_init_Inr:
  "TwoWayANOVA_init ((c0 # row0) # rows) fa fb = Inr s \<longleftrightarrow>
     (validate ((c0 # row0) # rows) (Suc (length rows)) (Suc (length row0)) (length c0) = Inr ()
      \<and> s = \<lparr> tw_data = (c0 # row0) # rows, tw_factor_a_name = fa, tw_factor_b_name = fb,
              tw_a = int (Suc (length rows)), tw_b = int (Suc (length row0)),
              tw_r = int (length c0),
              tw_N = int (Suc (length rows)) * int (Suc (length row0)) * int (length c0) \<rparr>)"
  by (auto simp: TwoWayANOVA_init_def bind_res_eq_Inr)

lemma tw_init_inv:
  assumes "TwoWayANOVA_init data fa fb = Inr s"
  shows "tw_inv s"
proof -
  from assms obtain c0 row0 rows where d: "data = (c0 # row0) # rows"
    by (auto simp: TwoWayANOVA_init_def split: list.splits)
  from assms [unfolded d tw_init_Inr] show ?thesis
    by (auto simp: validate_Inr tw_inv_def rectangular_def)
qed

text \<open>
  Where the first row and the first cell of the grid exist, the constructor validates
  the grid before it returns: it fails exactly when a factor has fewer than two levels, the
  replicate count \<open>r = len(data[0][0])\<close> is below two, or the grid is not rectangular;
  every such failure is a validation error; and with two levels of each factor and
  \<open>r < 2\<close> the error is the one whose message states the minimum replicate
  requirement.
\<close>

lemma two_way_validation:
  fixes data :: "real list list list"
  assumes "data = (c0 # row0) # rows"
  shows "((\<exists>e. TwoWayANOVA_init data fa fb = Inl e) \<longleftrightarrow>
            (length data < 2 \<or> length (c0 # row0) < 2 \<or> length c0 < 2
             \<or> \<not> rectangular data (length (c0 # row0)) (length c0)))
    \<and> (\<forall>e. TwoWayANOVA_init data fa fb = Inl e \<longrightarrow> is_validation_error e)
    \<and> (2 \<le> length data \<and> 2 \<le> length (c0 # row0) \<and> length c0 < 2 \<longrightarrow>
          TwoWayANOVA_init data fa fb = Inl TooFewReplicates)
    \<and> message TooFewReplicates
         = ''Two-way ANOVA with replication requires at least 2 replicates per cell.''"
proof -
  let ?v = "validate data (length data) (length (c0 # row0)) (length c0)"
  have init: "TwoWayANOVA_init data fa fb = bind_res ?v (\<lambda>_.
      Inr \<lparr> tw_data = data, tw_factor_a_name = fa, tw_factor_b_name = fb,
            tw_a = int (length data), tw_b = int (length (c0 # row0)),
            tw_r = int (length c0),
            tw_N = int (length data) * int (length (c0 # row0)) * int (length c0) \<rparr>)"
    by (simp add: TwoWayANOVA_init_def assms)
  have fails: "(\<exists>e. TwoWayANOVA_init data fa fb = Inl e) \<longleftrightarrow> ?v \<noteq> Inr ()"
    unfolding init by (cases ?v) auto
  have kind: "is_validation_error e" if "TwoWayANOVA_init data fa fb = Inl e" for e
    using that unfolding init by (cases ?v) (auto dest: validate_Inl)
  have few: "TwoWayANOVA_init data fa fb = Inl TooFewReplicates"
    if "2 \<le> length data \<and> 2 \<le> length (c0 # row0) \<and> length c0 < 2"
    using that unfolding init by (auto simp: validate_def)
  show ?thesis
    using fails kind few validate_Inr [of data "length data" "length (c0 # row0)" "length c0" "()"]
    by (simp only: message.simps) fastforce
qed

text \<open>The grid of the test \<^verbatim>\<open>test_single_replicate_rejected\<close>.\<close>

lemma two_way_validation_example:
  "TwoWayANOVA_init [[[10], [20]], [[15], [25]]] ''Factor A'' ''Factor B''
     = Inl TooFewReplicates
   \<and> is_validation_error TooFewReplicates
   \<and> message TooFewReplicates
       = ''Two-way ANOVA with replication requires at least 2 replicates per cell.''"
proof -
  have d: "[[[10], [20]], [[15], [25]]] = ([10] # [[20::real]]) # [[[15], [25]]]" by simp
  from two_way_validation [OF d, of "''Factor A''" "''Factor B''"] show ?thesis by simp
qed

text \<open>
  Claim C5 fails on the code at a grid whose first row is empty, which is not
  rectangular (the first row has no column, the second has two). The constructor reads
  \<^verbatim>\<open>len(data[0][0])\<close> before it calls \<^verbatim>\<open>_validate\<close>, so the grid never reaches the
  checks that would reject it with a validation error: the fault is an
  \<^verbatim>\<open>IndexError\<close>.
\<close>

theorem two_way_index_error_before_validation:
  "TwoWayANOVA_init [[], [[1, 2], [3, 4]]] ''Factor A'' ''Factor B'' = Inl IndexError
   \<and> \<not> is_validation_error IndexError
   \<and> length ([[], [[1, 2], [3, 4 :: real]]] ! 0) = 0
   \<and> length ([[], [[1, 2], [3, 4 :: real]]] ! 1) = 2"
  by (simp add: TwoWayANOVA_init_def)

text \<open>No number of columns and of replicates makes that grid rectangular.\<close>

lemma ragged_grid_not_rectangular: "\<not> rectangular [[], [[1, 2], [3, 4]]] b r"
  by (auto simp: rectangular_def)

subsection \<open>The two-way computation returns\<close>

lemma length_concat_const:
  "(\<And>c. c \<in> set xs \<Longrightarrow> length c = r) \<Longrightarrow> length (concat xs) = length xs * r"
  by (induction xs) simp_all

lemma length_column:
  "(\<And>row. row \<in> set data \<Longrightarrow> length (row ! j) = r) \<Longrightarrow>
     length (column data j) = length data * r"
  unfolding column_def by (induction data) simp_all

lemma long_not_Nil: "4 \<le> n \<Longrightarrow> length xs = n \<Longrightarrow> xs \<noteq> []"
  by auto

lemma std_err_all:
  "(\<And>g. g \<in> set gs \<Longrightarrow> 1 < length g) \<Longrightarrow> \<exists>ses. map_res std_err gs = Inr ses"
  by (rule map_res_ex) (auto intro: std_err_ex)

lemma tw_calculate_ok:
  assumes "tw_inv s"
  shows "\<exists>res. tw_calculate f_sf s = Inr res
    \<and> ss_a res = real_of_int (tw_b s) * real_of_int (tw_r s)
        * sq_dev (tw_rows (tw_data s)) (tw_grand (tw_data s))
    \<and> ss_b res = real_of_int (tw_a s) * real_of_int (tw_r s)
        * sq_dev (tw_cols (tw_data s) (nat (tw_b s))) (tw_grand (tw_data s))
    \<and> ss_ab res = real_of_int (tw_r s)
        * tw_ssab (tw_data s) (nat (tw_a s)) (nat (tw_b s))
    \<and> ss_e res = tw_sse (tw_data s) (nat (tw_a s)) (nat (tw_b s))
    \<and> ss_t res = sq_dev (concat (concat (tw_data s))) (tw_grand (tw_data s))
    \<and> df_a res = tw_a s - 1
    \<and> df_b res = tw_b s - 1
    \<and> df_ab res = (tw_a s - 1) * (tw_b s - 1)
    \<and> df_e res = tw_a s * tw_b s * (tw_r s - 1)
    \<and> df_t res = tw_N s - 1
    \<and> ms_e res = (if tw_a s * tw_b s * (tw_r s - 1) > 0
        then ss_e res / real_of_int (tw_a s * tw_b s * (tw_r s - 1)) else 0)
    \<and> f_a res = (if ms_e res > 0 then Fin (ms_a res / ms_e res) else PInf)
    \<and> f_b res = (if ms_e res > 0 then Fin (ms_b res / ms_e res) else PInf)
    \<and> f_ab res = (if ms_e res > 0 then Fin (ms_ab res / ms_e res) else PInf)"
proof -
  let ?d = "tw_data s"
  let ?b = "nat (tw_b s)" and ?r = "nat (tw_r s)"
  have a: "tw_a s = int (length ?d)" and a2: "2 \<le> tw_a s" and b2: "2 \<le> tw_b s"
    and r2: "2 \<le> tw_r s"
    and rect: "\<forall>row \<in> set ?d. int (length row) = tw_b s
           \<and> (\<forall>c \<in> set row. int (length c) = tw_r s)"
    using assms by (simp_all add: tw_inv_def)
  have rowlen: "length row = ?b" if "row \<in> set ?d" for row
  proof -
    have "int (length row) = tw_b s" using rect that by blast
    then show ?thesis by linarith
  qed
  have celllen: "length c = ?r" if "row \<in> set ?d" "c \<in> set row" for row c
  proof -
    have "int (length c) = tw_r s" using rect that by blast
    then show ?thesis by linarith
  qed
  have cell_ne: "c \<noteq> []" if "row \<in> set ?d" "c \<in> set row" for row c
    using celllen [OF that] r2 by auto
  have row_len: "length (concat row) = ?b * ?r" if "row \<in> set ?d" for row
    using length_concat_const [of row ?r] celllen [OF that] rowlen [OF that] by simp
  have br: "4 \<le> ?b * ?r"
  proof -
    have "2 \<le> ?b" "2 \<le> ?r" using b2 r2 by auto
    then have "2 * 2 \<le> ?b * ?r" by (rule mult_le_mono)
    then show ?thesis by simp
  qed
  have row_ne: "concat row \<noteq> []" if "row \<in> set ?d" for row
    using br row_len [OF that] by (rule long_not_Nil)
  have col_len: "length (column ?d j) = length ?d * ?r" if "j < ?b" for j
  proof (rule length_column)
    fix row assume row: "row \<in> set ?d"
    then have "row ! j \<in> set row" using rowlen [OF row] that by simp
    then show "length (row ! j) = ?r" using celllen [OF row] by simp
  qed
  have ar: "4 \<le> length ?d * ?r"
  proof -
    have "2 \<le> length ?d" "2 \<le> ?r" using a a2 r2 by auto
    then have "2 * 2 \<le> length ?d * ?r" by (rule mult_le_mono)
    then show ?thesis by simp
  qed
  have col_ne: "column ?d j \<noteq> []" if "j < ?b" for j
    using ar col_len [OF that] by (rule long_not_Nil)
  have d_ne: "?d \<noteq> []" using a a2 by auto
  then obtain row0 rest where d: "?d = row0 # rest" by (cases ?d) auto
  have flat_ne: "concat (concat ?d) \<noteq> []"
  proof -
    have "concat row0 \<noteq> []" using row_ne [of row0] d by simp
    then show ?thesis unfolding d by (simp del: concat_eq_Nil_conv)
  qed
  have grand: "np_mean (concat (concat ?d)) = Inr (tw_grand ?d)"
    unfolding tw_grand_def using flat_ne by (rule np_mean_ok)
  have rows: "map_res (\<lambda>row. np_mean (concat row)) ?d = Inr (tw_rows ?d)"
    unfolding tw_rows_def by (rule map_res_ok, rule np_mean_ok, rule row_ne)
  have cols: "map_res (\<lambda>j. np_mean (column ?d j)) [0..<?b] = Inr (tw_cols ?d ?b)"
    unfolding tw_cols_def by (rule map_res_ok, rule np_mean_ok, rule col_ne) simp
  have cells: "map_res (map_res np_mean) ?d = Inr (tw_cells ?d)"
    unfolding tw_cells_def
  proof (rule map_res_ok)
    fix row assume "row \<in> set ?d"
    then show "map_res np_mean row = Inr (map avg row)"
      by (intro map_res_ok np_mean_ok) (rule cell_ne)
  qed
  obtain sea where sea: "map_res std_err (map concat ?d) = Inr sea"
    using std_err_all [of "map concat ?d"] row_len br by fastforce
  obtain seb where seb: "map_res std_err (map (column ?d) [0..<?b]) = Inr seb"
    using std_err_all [of "map (column ?d) [0..<?b]"] col_len ar by fastforce
  let ?G = "tw_grand ?d"
  let ?ssa = "real_of_int (tw_b s) * real_of_int (tw_r s) * sq_dev (tw_rows ?d) ?G"
  let ?ssb = "real_of_int (tw_a s) * real_of_int (tw_r s) * sq_dev (tw_cols ?d ?b) ?G"
  let ?ssab = "real_of_int (tw_r s) * tw_ssab ?d (nat (tw_a s)) ?b"
  let ?sse = "tw_sse ?d (nat (tw_a s)) ?b"
  let ?dfa = "tw_a s - 1" and ?dfb = "tw_b s - 1"
  let ?dfab = "(tw_a s - 1) * (tw_b s - 1)"
  let ?dfe = "tw_a s * tw_b s * (tw_r s - 1)"
  let ?msa = "?ssa / real_of_int ?dfa" and ?msb = "?ssb / real_of_int ?dfb"
  let ?msab = "?ssab / real_of_int ?dfab"
  let ?mse = "if ?dfe > 0 then ?sse / real_of_int ?dfe else 0"
  let ?fa = "if ?mse > 0 then Fin (?msa / ?mse) else PInf"
  let ?fb = "if ?mse > 0 then Fin (?msb / ?mse) else PInf"
  let ?fab = "if ?mse > 0 then Fin (?msab / ?mse) else PInf"
  have dfa0: "real_of_int ?dfa \<noteq> 0" and dfb0: "real_of_int ?dfb \<noteq> 0"
    and dfab0: "real_of_int ?dfab \<noteq> 0"
    using a2 b2 by auto
  have msa: "np_div ?ssa (real_of_int ?dfa) = Inr ?msa" using dfa0 by (rule np_div_ok)
  have msb: "np_div ?ssb (real_of_int ?dfb) = Inr ?msb" using dfb0 by (rule np_div_ok)
  have msab: "np_div ?ssab (real_of_int ?dfab) = Inr ?msab" using dfab0 by (rule np_div_ok)
  have mse: "(if ?dfe > 0 then np_div ?sse (real_of_int ?dfe) else Inr 0) = Inr ?mse"
    by (simp add: np_div_def)
  have fr: "f_ratio ms ?mse = Inr (if ?mse > 0 then Fin (ms / ?mse) else PInf)" for ms
    unfolding f_ratio_def np_div_def by (cases "?mse > 0") simp_all
  have "tw_calculate f_sf s = Inr \<lparr> ss_a = ?ssa, ss_b = ?ssb, ss_ab = ?ssab, ss_e = ?sse,
      ss_t = sq_dev (concat (concat ?d)) ?G,
      df_a = ?dfa, df_b = ?dfb, df_ab = ?dfab, df_e = ?dfe, df_t = tw_N s - 1,
      ms_a = ?msa, ms_b = ?msb, ms_ab = ?msab, ms_e = ?mse,
      f_a = ?fa, f_b = ?fb, f_ab = ?fab,
      p_a = f_sf ?fa ?dfa ?dfe, p_b = f_sf ?fb ?dfb ?dfe, p_ab = f_sf ?fab ?dfab ?dfe,
      cell_means = tw_cells ?d, row_means = tw_rows ?d, col_means = tw_cols ?d ?b,
      tw_grand_mean = ?G,
      tw_residuals = concat (map (\<lambda>i. concat (map (\<lambda>j.
             map (\<lambda>x. x - tw_cells ?d ! i ! j) (?d ! i ! j)) [0..<?b])) [0..<nat (tw_a s)]),
      groups_by_a = map concat ?d, groups_by_b = map (column ?d) [0..<?b],
      a_names = map (\<lambda>i. tw_factor_a_name s @ '' '' @ str_nat (i + 1)) [0..<nat (tw_a s)],
      b_names = map (\<lambda>j. tw_factor_b_name s @ '' '' @ str_nat (j + 1)) [0..<?b],
      se_a = sea, se_b = seb \<rparr>"
    unfolding tw_calculate_def Let_def grand rows cols cells bind_res_Inr
      tw_ssab_def [symmetric] tw_sse_def [symmetric] msa msb msab mse fr sea seb
    by (rule refl)
  then show ?thesis by simp
qed

subsection \<open>The two-way decomposition of the sum of squares\<close>

lemma sum_list_upt: "sum_list (map f [0..<n]) = sum f {0..<n}"
  by (simp add: interv_sum_list_conv_sum_set_nat)








lemma tw_inv_rectangular:
  assumes "tw_inv s"
  shows "rectangular (tw_data s) (nat (tw_b s)) (nat (tw_r s))"
  unfolding rectangular_def
proof (intro ballI conjI)
  fix row assume row: "row \<in> set (tw_data s)"
  then have "int (length row) = tw_b s" using assms by (simp add: tw_inv_def)
  then show "length row = nat (tw_b s)" by linarith
  fix c assume "c \<in> set row"
  then have "int (length c) = tw_r s" using assms row by (simp add: tw_inv_def)
  then show "length c = nat (tw_r s)" by linarith
qed







text \<open>
  Claim C3. For a grid that the constructor accepts, with \<open>a\<close> rows, \<open>b\<close> columns
  and \<open>r\<close> replicates per cell, the degrees of freedom are \<open>a - 1\<close>, \<open>b - 1\<close>,
  \<open>(a - 1)(b - 1)\<close>, \<open>ab(r - 1)\<close> and \<open>N - 1\<close> with \<open>N = abr\<close>, and the first
  four add up to the last, as integers.
\<close>

theorem two_way_degrees_of_freedom:
  assumes "TwoWayANOVA_init data fa fb = Inr s"
  shows "\<exists>res. tw_calculate f_sf s = Inr res
    \<and> tw_a s = int (length data)
    \<and> rectangular data (nat (tw_b s)) (nat (tw_r s))
    \<and> tw_N s = tw_a s * tw_b s * tw_r s
    \<and> df_a res = tw_a s - 1
    \<and> df_b res = tw_b s - 1
    \<and> df_ab res = (tw_a s - 1) * (tw_b s - 1)
    \<and> df_e res = tw_a s * tw_b s * (tw_r s - 1)
    \<and> df_t res = tw_N s - 1
    \<and> df_a res + df_b res + df_ab res + df_e res = df_t res"
proof -
  have inv: "tw_inv s" using assms by (rule tw_init_inv)
  have d: "tw_data s = data"
    using assms by (auto simp: TwoWayANOVA_init_def bind_res_eq_Inr split: list.splits)
  have a: "tw_a s = int (length data)" and n: "tw_N s = tw_a s * tw_b s * tw_r s"
    using inv d by (simp_all add: tw_inv_def)
  have rect: "rectangular data (nat (tw_b s)) (nat (tw_r s))"
    using tw_inv_rectangular [OF inv] d by simp
  from tw_calculate_ok [OF inv, of f_sf] obtain res where res: "tw_calculate f_sf s = Inr res"
    and df: "df_a res = tw_a s - 1" "df_b res = tw_b s - 1"
      "df_ab res = (tw_a s - 1) * (tw_b s - 1)"
      "df_e res = tw_a s * tw_b s * (tw_r s - 1)" "df_t res = tw_N s - 1"
    by blast
  have "df_a res + df_b res + df_ab res + df_e res = df_t res"
    unfolding df n by (simp add: algebra_simps)
  with res df a n rect show ?thesis by blast
qed

theorem two_way_degrees_of_freedom_witness:
  "TwoWayANOVA_init [[[1, 2], [3, 4]], [[5, 6], [7, 9]]] ''A'' ''B''
     = Inr \<lparr> tw_data = [[[1, 2], [3, 4]], [[5, 6], [7, 9]]],
             tw_factor_a_name = ''A'', tw_factor_b_name = ''B'',
             tw_a = 2, tw_b = 2, tw_r = 2, tw_N = 8 \<rparr>
   \<and> (\<exists>res. tw_calculate (\<lambda>f d1 d2. 0)
          \<lparr> tw_data = [[[1, 2], [3, 4]], [[5, 6], [7, 9]]],
            tw_factor_a_name = ''A'', tw_factor_b_name = ''B'',
            tw_a = 2, tw_b = 2, tw_r = 2, tw_N = 8 \<rparr> = Inr res
        \<and> df_a res = 1 \<and> df_b res = 1 \<and> df_ab res = 1 \<and> df_e res = 4 \<and> df_t res = 7
        \<and> df_a res + df_b res + df_ab res + df_e res = df_t res)"
proof -
  have init: "TwoWayANOVA_init [[[1, 2], [3, 4]], [[5, 6], [7, 9]]] ''A'' ''B''
     = Inr \<lparr> tw_data = [[[1, 2], [3, 4]], [[5, 6], [7, 9]]],
             tw_factor_a_name = ''A'', tw_factor_b_name = ''B'',
             tw_a = 2, tw_b = 2, tw_r = 2, tw_N = 8 \<rparr>"
    by (simp add: TwoWayANOVA_init_def validate_def)
  from two_way_degrees_of_freedom [OF init, of "\<lambda>f d1 d2. 0"] init show ?thesis
    by auto
qed

subsection \<open>The pairs of a post-hoc table\<close>

lemma filter_upt_greater: "filter (\<lambda>j. i < j) [0..<k] = [Suc i..<k]"
proof (induction k)
  case 0
  show ?case by simp
next
  case (Suc k)
  show ?case
  proof (cases "i < k")
    case True
    then show ?thesis using Suc by simp
  next
    case False
    then show ?thesis using Suc by simp
  qed
qed

lemma pairs_as_filter:
  "pairs k = filter (\<lambda>(i, j). i < j) (List.product [0..<k] [0..<k])"
proof -
  have "filter (\<lambda>(i, j). i < j) (map (Pair i) [0..<k]) = map (Pair i) [i + 1..<k]" for i
    by (simp add: filter_map o_def filter_upt_greater)
  then show ?thesis
    by (simp add: pairs_def product_concat_map filter_concat o_def)
qed

lemma set_pairs: "set (pairs k) = {(i, j). i < j \<and> j < k}"
  by (auto simp: pairs_as_filter)

lemma distinct_pairs: "distinct (pairs k)"
  unfolding pairs_as_filter by (intro distinct_filter distinct_product) simp_all

lemma sum_below: "2 * (\<Sum>i<k. i) = k * (k - 1)" for k :: nat
proof (induction k)
  case 0
  show ?case by simp
next
  case (Suc k)
  have "2 * (\<Sum>i<Suc k. i) = 2 * (\<Sum>i<k. i) + 2 * k" by simp
  also have "\<dots> = k * (k - 1) + 2 * k" using Suc by simp
  also have "\<dots> = Suc k * (Suc k - 1)" by (cases k) simp_all
  finally show ?case .
qed

lemma length_pairs: "length (pairs k) = k * (k - 1) div 2"
proof -
  have "length (pairs k) = (\<Sum>i<k. k - Suc i)"
    by (simp add: pairs_def length_concat o_def sum_list_upt lessThan_atLeast0)
  also have "\<dots> = (\<Sum>i<k. i)" by (rule sum.nat_diff_reindex)
  finally show ?thesis using sum_below [of k] by simp
qed

lemma pairs_index: "(i, j) \<in> set (pairs k) \<Longrightarrow> i < k \<and> j < k \<and> i < j"
  by (auto simp: set_pairs)

lemma name_at_ok: "i < length names \<Longrightarrow> name_at names i = Inr (names ! i)"
  by (simp add: name_at_def)

lemma choose_two_int: "int k * (int k - 1) div 2 = int (k choose 2)"
proof (cases k)
  case 0
  then show ?thesis by simp
next
  case (Suc n)
  have "int k * (int k - 1) = int (k * (k - 1))" unfolding Suc by (simp add: algebra_simps)
  then have "int k * (int k - 1) div 2 = int (k * (k - 1) div 2)"
    by (simp only: zdiv_int of_nat_numeral)
  then show ?thesis by (simp only: choose_two)
qed

lemma length_pairs_choose: "length (pairs k) = k choose 2"
  by (simp add: length_pairs choose_two)

lemma choose_two_pos: "2 \<le> k \<Longrightarrow> 0 < k choose 2"
  by (simp add: zero_less_binomial_iff)

subsection \<open>The three post-hoc procedures\<close>


lemma bonferroni_ok:
  assumes k: "2 \<le> length groups" and ne: "[] \<notin> set groups"
    and names: "length groups \<le> length names"
  shows "bonferroni ttest_ind groups names alpha = Inr
     \<lparr> bf_table = map (bonferroni_row_of ttest_ind groups names alpha) (pairs (length groups)),
       bf_corrected_alpha = alpha / real (length groups choose 2) \<rparr>"
proof -
  let ?k = "length groups"
  have m0: "real (?k choose 2) \<noteq> 0" using choose_two_pos [OF k] by simp
  have rows: "map_res (\<lambda>(i, j).
        case ttest_ind (groups ! i) (groups ! j) of (t_stat, p_raw) \<Rightarrow>
        bind_res (np_mean (groups ! i)) (\<lambda>mi.
        bind_res (np_mean (groups ! j)) (\<lambda>mj.
        bind_res (name_at names i) (\<lambda>n1.
        bind_res (name_at names j) (\<lambda>n2.
        Inr \<lparr> bf_group1 = n1, bf_group2 = n2, bf_mean_diff = mi - mj,
              bf_t_stat = t_stat, bf_p_raw = p_raw,
              bf_p_adjusted = py_min (fl_times p_raw (real (?k choose 2))) (Num 1),
              bf_significant
                = fl_less (py_min (fl_times p_raw (real (?k choose 2))) (Num 1)) (Num alpha) \<rparr>)))))
        (pairs ?k) = Inr (map (bonferroni_row_of ttest_ind groups names alpha) (pairs ?k))"
  proof (rule map_res_ok)
    fix x assume x: "x \<in> set (pairs ?k)"
    obtain i j where ij: "x = (i, j)" by (cases x)
    have i: "i < ?k" and j: "j < ?k" using pairs_index x ij by blast+
    have "groups ! i \<noteq> []" "groups ! j \<noteq> []" using ne i j nth_mem by metis+
    then show "(case x of (i, j) \<Rightarrow>
        case ttest_ind (groups ! i) (groups ! j) of (t_stat, p_raw) \<Rightarrow>
        bind_res (np_mean (groups ! i)) (\<lambda>mi.
        bind_res (np_mean (groups ! j)) (\<lambda>mj.
        bind_res (name_at names i) (\<lambda>n1.
        bind_res (name_at names j) (\<lambda>n2.
        Inr \<lparr> bf_group1 = n1, bf_group2 = n2, bf_mean_diff = mi - mj,
              bf_t_stat = t_stat, bf_p_raw = p_raw,
              bf_p_adjusted = py_min (fl_times p_raw (real (?k choose 2))) (Num 1),
              bf_significant
                = fl_less (py_min (fl_times p_raw (real (?k choose 2))) (Num 1)) (Num alpha) \<rparr>)))))
      = Inr (bonferroni_row_of ttest_ind groups names alpha x)"
      using i j names
      by (simp add: ij np_mean_ok name_at_ok bonferroni_row_of_def split: prod.splits)
  qed
  have pd: "py_div alpha (real (?k choose 2)) = Inr (alpha / real (?k choose 2))"
    using m0 by (rule py_div_ok)
  show ?thesis
    unfolding bonferroni_def Let_def choose_two_int of_int_of_nat_eq rows pd bind_res_Inr
    by (rule refl)
qed






lemma pairs_3: "pairs 3 = [(0, 1), (0, 2), (1, 2)]"
  by (simp add: pairs_def upt_rec)

lemma pairs_2: "pairs 2 = [(0, 1)]"
  by (simp add: pairs_def upt_rec)

text \<open>
  Claim C6, as amended. A Bonferroni run over \<open>k \<ge> 2\<close> non-empty groups with a name
  for each returns one row per pair. In the row of the pair \<open>(i, j)\<close> the raw p-value
  is the one the t-test gave for the two groups, the adjusted p-value is Python's
  \<^verbatim>\<open>min(raw_p * m, 1.0)\<close> with \<open>m = C(k, 2)\<close>, and the pair is flagged exactly when
  the adjusted p-value is below \<open>alpha\<close> (default 0.05). When the raw p-value is a
  number, the adjusted one is the number \<open>min (raw_p * m) 1\<close>, at most 1, and at least
  the raw p-value if that is a probability. When the raw p-value is \<^verbatim>\<open>nan\<close>, so is
  the adjusted one, and the pair is not flagged.
\<close>

theorem bonferroni_adjustment:
  assumes "2 \<le> length groups" and "[] \<notin> set groups" and "length groups \<le> length names"
  shows "\<exists>res. bonferroni ttest_ind groups names alpha = Inr res
    \<and> length (bf_table res) = length (pairs (length groups))
    \<and> (\<forall>p < length (bf_table res). \<forall>i j. pairs (length groups) ! p = (i, j) \<longrightarrow>
          bf_p_raw (bf_table res ! p) = snd (ttest_ind (groups ! i) (groups ! j))
        \<and> bf_p_adjusted (bf_table res ! p)
            = py_min (fl_times (bf_p_raw (bf_table res ! p)) (real (length groups choose 2)))
                (Num 1)
        \<and> (bf_significant (bf_table res ! p)
             \<longleftrightarrow> fl_less (bf_p_adjusted (bf_table res ! p)) (Num alpha))
        \<and> (\<forall>x. bf_p_raw (bf_table res ! p) = Num x \<longrightarrow>
              bf_p_adjusted (bf_table res ! p)
                = Num (min (x * real (length groups choose 2)) 1)
            \<and> fl_le (bf_p_adjusted (bf_table res ! p)) (Num 1)
            \<and> (0 \<le> x \<and> x \<le> 1 \<longrightarrow>
                 fl_le (bf_p_raw (bf_table res ! p)) (bf_p_adjusted (bf_table res ! p))))
        \<and> (bf_p_raw (bf_table res ! p) = NaN \<longrightarrow>
              bf_p_adjusted (bf_table res ! p) = NaN \<and> \<not> bf_significant (bf_table res ! p)))
    \<and> default_alpha = 5 / 100"
proof -
  let ?k = "length groups"
  let ?m = "real (?k choose 2)"
  let ?res = "\<lparr> bf_table = map (bonferroni_row_of ttest_ind groups names alpha) (pairs ?k),
      bf_corrected_alpha = alpha / ?m \<rparr>"
  have run: "bonferroni ttest_ind groups names alpha = Inr ?res"
    using assms by (rule bonferroni_ok)
  have m1: "1 \<le> ?m"
  proof -
    have "0 < ?k choose 2" using assms(1) by (rule choose_two_pos)
    then have "1 \<le> ?k choose 2" by linarith
    then have "real 1 \<le> ?m" by (simp only: of_nat_le_iff)
    then show ?thesis by simp
  qed
  have grow: "x \<le> min (x * ?m) 1" if "0 \<le> x" "x \<le> 1" for x
  proof -
    have "x * 1 \<le> x * ?m" using that(1) m1 by (rule mult_left_mono [rotated])
    then show ?thesis using that(2) by simp
  qed
  have number: "py_min (fl_times (Num x) ?m) (Num 1) = Num (min (x * ?m) 1)" for x
    by (simp add: py_min_def min_def)
  have rows: "bf_p_raw (bf_table ?res ! p) = snd (ttest_ind (groups ! i) (groups ! j))
        \<and> bf_p_adjusted (bf_table ?res ! p)
            = py_min (fl_times (bf_p_raw (bf_table ?res ! p)) ?m) (Num 1)
        \<and> (bf_significant (bf_table ?res ! p)
             \<longleftrightarrow> fl_less (bf_p_adjusted (bf_table ?res ! p)) (Num alpha))
        \<and> (\<forall>x. bf_p_raw (bf_table ?res ! p) = Num x \<longrightarrow>
              bf_p_adjusted (bf_table ?res ! p) = Num (min (x * ?m) 1)
            \<and> fl_le (bf_p_adjusted (bf_table ?res ! p)) (Num 1)
            \<and> (0 \<le> x \<and> x \<le> 1 \<longrightarrow>
                 fl_le (bf_p_raw (bf_table ?res ! p)) (bf_p_adjusted (bf_table ?res ! p))))
        \<and> (bf_p_raw (bf_table ?res ! p) = NaN \<longrightarrow>
              bf_p_adjusted (bf_table ?res ! p) = NaN \<and> \<not> bf_significant (bf_table ?res ! p))"
    if "p < length (bf_table ?res)" "pairs ?k ! p = (i, j)" for p i j
  proof -
    let ?row = "bf_table ?res ! p"
    have raw: "bf_p_raw ?row = snd (ttest_ind (groups ! i) (groups ! j))"
      and adj: "bf_p_adjusted ?row = py_min (fl_times (bf_p_raw ?row) ?m) (Num 1)"
      and sig: "bf_significant ?row \<longleftrightarrow> fl_less (bf_p_adjusted ?row) (Num alpha)"
      using that by (simp_all add: bonferroni_row_of_def)
    have num: "bf_p_adjusted ?row = Num (min (x * ?m) 1) \<and> fl_le (bf_p_adjusted ?row) (Num 1)
        \<and> (0 \<le> x \<and> x \<le> 1 \<longrightarrow> fl_le (bf_p_raw ?row) (bf_p_adjusted ?row))"
      if x: "bf_p_raw ?row = Num x" for x
      using grow [of x] unfolding adj x number by simp
    have nan: "bf_p_adjusted ?row = NaN \<and> \<not> bf_significant ?row" if "bf_p_raw ?row = NaN"
      unfolding sig unfolding adj that by (simp add: py_min_def)
    show ?thesis using raw adj sig num nan by blast
  qed
  have len: "length (bf_table ?res) = length (pairs ?k)" by simp
  show ?thesis
    unfolding run using rows len by (intro exI [of _ ?res] conjI allI impI default_alpha_def) blast+
qed

theorem bonferroni_adjustment_witness:
  "\<exists>res. bonferroni (\<lambda>x y. (Num 2, Num (1 / 50))) [[1, 2], [3, 4], [5, 9]] [''a'', ''b'', ''c'']
        default_alpha = Inr res
    \<and> length (bf_table res) = 3
    \<and> bf_p_raw (bf_table res ! 0) = Num (1 / 50)
    \<and> bf_p_adjusted (bf_table res ! 0) = Num (3 / 50)
    \<and> fl_le (bf_p_raw (bf_table res ! 0)) (bf_p_adjusted (bf_table res ! 0))
    \<and> fl_le (bf_p_adjusted (bf_table res ! 0)) (Num 1)
    \<and> \<not> bf_significant (bf_table res ! 0)"
proof -
  let ?groups = "[[1, 2], [3, 4], [5, 9]] :: real list list"
  let ?t = "\<lambda>(x :: real list) (y :: real list). (Num 2, Num (1 / 50))"
  have h: "2 \<le> length ?groups" "[] \<notin> set ?groups"
    "length ?groups \<le> length [''a'', ''b'', ''c'']" by simp_all
  have c: "(3::nat) choose 2 = 3" by (simp add: choose_two)
  from bonferroni_adjustment [OF h, of ?t default_alpha]
  obtain res where run: "bonferroni ?t ?groups [''a'', ''b'', ''c''] default_alpha = Inr res"
    and len: "length (bf_table res) = length (pairs (length ?groups))"
    and rows: "\<forall>p < length (bf_table res). \<forall>i j. pairs (length ?groups) ! p = (i, j) \<longrightarrow>
          bf_p_raw (bf_table res ! p) = snd (?t (?groups ! i) (?groups ! j))
        \<and> bf_p_adjusted (bf_table res ! p)
            = py_min (fl_times (bf_p_raw (bf_table res ! p)) (real (length ?groups choose 2)))
                (Num 1)
        \<and> (bf_significant (bf_table res ! p)
             \<longleftrightarrow> fl_less (bf_p_adjusted (bf_table res ! p)) (Num default_alpha))
        \<and> (\<forall>x. bf_p_raw (bf_table res ! p) = Num x \<longrightarrow>
              bf_p_adjusted (bf_table res ! p)
                = Num (min (x * real (length ?groups choose 2)) 1)
            \<and> fl_le (bf_p_adjusted (bf_table res ! p)) (Num 1)
            \<and> (0 \<le> x \<and> x \<le> 1 \<longrightarrow>
                 fl_le (bf_p_raw (bf_table res ! p)) (bf_p_adjusted (bf_table res ! p))))
        \<and> (bf_p_raw (bf_table res ! p) = NaN \<longrightarrow>
              bf_p_adjusted (bf_table res ! p) = NaN \<and> \<not> bf_significant (bf_table res ! p))"
    by blast
  have lg: "length ?groups = 3" by simp
  have l3: "length (bf_table res) = 3" using len unfolding lg pairs_3 by simp
  have p0: "pairs 3 ! 0 = (0, 1)" unfolding pairs_3 by simp
  have z: "(0::nat) < 3" by simp
  note row0 = rows [unfolded lg c l3, rule_format, OF z p0]
  have raw: "bf_p_raw (bf_table res ! 0) = Num (1 / 50)" using row0 by simp
  have adj: "bf_p_adjusted (bf_table res ! 0) = Num (3 / 50)"
    using row0 raw by (simp add: py_min_def)
  have "bf_significant (bf_table res ! 0)
      \<longleftrightarrow> fl_less (bf_p_adjusted (bf_table res ! 0)) (Num default_alpha)"
    using row0 by blast
  then have sig: "\<not> bf_significant (bf_table res ! 0)"
    unfolding adj by (simp add: default_alpha_def)
  show ?thesis using run l3 raw adj sig by (intro exI [of _ res]) simp
qed

text \<open>
  The claim as stated fails where the t-test has no degree of freedom: for two
  singleton groups scipy returns \<^verbatim>\<open>nan\<close>, the adjusted p-value is
  \<^verbatim>\<open>min(nan, 1.0) = nan\<close>, and neither \<open>adjusted \<le> 1\<close> nor \<open>adjusted \<ge> raw\<close>
  holds of it.
\<close>

theorem bonferroni_nan_counterexample:
  "bonferroni (scipy_ttest_ind (\<lambda>x y. (Num 0, Num 1))) [[1], [2]] [''a'', ''b''] (5 / 100)
     = Inr \<lparr> bf_table =
         [\<lparr> bf_group1 = ''a'', bf_group2 = ''b'', bf_mean_diff = - 1,
            bf_t_stat = NaN, bf_p_raw = NaN, bf_p_adjusted = NaN,
            bf_significant = False \<rparr>],
         bf_corrected_alpha = 5 / 100 \<rparr>
   \<and> \<not> fl_le NaN (Num 1) \<and> \<not> fl_le NaN NaN"
proof -
  let ?g = "[[1], [2]] :: real list list"
  have h: "2 \<le> length ?g" "[] \<notin> set ?g" "length ?g \<le> length [''a'', ''b'']" by simp_all
  have lg: "length ?g = 2" by simp
  have c: "(2::nat) choose 2 = 1" by (simp add: choose_two)
  show ?thesis
    unfolding bonferroni_ok [OF h] lg pairs_2 c
    by (simp add: bonferroni_row_of_def scipy_ttest_ind_def py_min_def avg_def)
qed








end
